theory Spec2Isabelle
  imports Complex_Main "HOL-Library.Extended_Nat"
begin

section \<open>Messages and token estimation (server.js)\<close>

text \<open>
  A message is the object \<^verbatim>\<open>{ role, content, ts }\<close> the server keeps in its histories.
  \<^verbatim>\<open>ts\<close> is absent on the messages the server builds without a timestamp.
\<close>

record message =
  role :: string
  content :: string
  ts :: "nat option"

text \<open>
  \<^verbatim>\<open>encode\<close> comes from the package gpt-3-encoder; it is a parameter of the model.
  It yields the token list of a text, or \<open>None\<close> where the call throws.
\<close>

type_synonym encoder = "string \<Rightarrow> nat list option"

definition APP_NAME :: string where
  "APP_NAME = ''BLACKGIFT AI''"

definition SYSTEM_PROMPT :: string where
  "SYSTEM_PROMPT = ''Ndiri mubatsiri we'' @ APP_NAME @ ''. Gara uchipindura muChiShona (Shona) chete. Kana mushandisi akakumbira kuchinja mutauro, bvunza mubvunzo muChiShona kuti uverenge kana vachida kuchinja. Shandisa mutauro unonzwisisika, wakapfava, uye unoenderana nemamiriro emubvunzo.''"

text \<open>
  \<^verbatim>\<open>countTokensForContent\<close>: a falsy text counts 0; otherwise the length of the encoding,
  and \<^verbatim>\<open>Math.ceil(text.length / 4)\<close> when the encoder throws.
\<close>

definition countTokensForContent :: "encoder \<Rightarrow> string \<Rightarrow> nat" where
  "countTokensForContent enc text =
     (if text = [] then 0
      else (case enc text of
              Some toks \<Rightarrow> length toks
            | None \<Rightarrow> (length text + 3) div 4))"

text \<open>
  \<^verbatim>\<open>countTokensForMessagesArray\<close>: the loop adds the content estimate plus 4 for each
  message to \<^verbatim>\<open>total\<close>, which starts at 0; the function returns \<^verbatim>\<open>total + 2\<close>.
  Token counts are lengths of arrays and strings held in memory, and sums of them over
  one history: they stay far below \<open>2 ^ 53\<close>, where the addition of doubles is the
  addition of naturals.
\<close>

definition countTokensForMessagesArray :: "encoder \<Rightarrow> message list \<Rightarrow> nat" where
  "countTokensForMessagesArray enc msgs =
     foldl (\<lambda>total m. total + (countTokensForContent enc (content m) + 4)) 0 msgs + 2"

section \<open>The trimming engine\<close>

record trim_result =
  messages :: "message list"
  totalTokens :: nat

text \<open>
  The \<^verbatim>\<open>while\<close> loop of \<^verbatim>\<open>trimMessagesByTokenBudget\<close>: while \<^verbatim>\<open>rest\<close> is not empty and
  \<^verbatim>\<open>total > maxTokens\<close>, shift the first element off \<^verbatim>\<open>rest\<close> and recount
  \<^verbatim>\<open>[system, ...rest]\<close>. The recursion is on \<^verbatim>\<open>rest\<close>, which loses one element per
  iteration; \<open>tot\<close> is the source's \<^verbatim>\<open>total\<close>.
\<close>

fun trim_loop :: "encoder \<Rightarrow> message \<Rightarrow> message list \<Rightarrow> nat \<Rightarrow> int \<Rightarrow> message list \<times> nat" where
  "trim_loop enc system [] tot maxTokens = ([], tot)"
| "trim_loop enc system (r # rest) tot maxTokens =
     (if int tot > maxTokens
      then trim_loop enc system rest (countTokensForMessagesArray enc (system # rest)) maxTokens
      else (r # rest, tot))"

text \<open>
  The system message of a seeded history; the timestamp is given where the source
  writes \<^verbatim>\<open>ts: Date.now()\<close>.
\<close>

definition seed_message :: "nat option \<Rightarrow> message" where
  "seed_message t = \<lparr>role = ''system'', content = SYSTEM_PROMPT, ts = t\<rparr>"

text \<open>
  \<^verbatim>\<open>trimMessagesByTokenBudget(messages, maxTokens)\<close>. The argument is \<open>None\<close> for a
  missing (undefined or null) list. The budget is the integer that
  \<^verbatim>\<open>parseInt\<close> gave \<^verbatim>\<open>HISTORY_MAX_TOKENS\<close>.
\<close>

definition trimMessagesByTokenBudget :: "encoder \<Rightarrow> message list option \<Rightarrow> int \<Rightarrow> trim_result" where
  "trimMessagesByTokenBudget enc msgs maxTokens =
     (case msgs of
        None \<Rightarrow> \<lparr>messages = [seed_message None],
                  totalTokens = countTokensForContent enc SYSTEM_PROMPT\<rparr>
      | Some [] \<Rightarrow> \<lparr>messages = [seed_message None],
                     totalTokens = countTokensForContent enc SYSTEM_PROMPT\<rparr>
      | Some (system # rest0) \<Rightarrow>
          (let total = countTokensForMessagesArray enc (system # rest0) in
           if int total \<le> maxTokens then \<lparr>messages = system # rest0, totalTokens = total\<rparr>
           else (case trim_loop enc system rest0 total maxTokens of
                   (rest, total') \<Rightarrow> \<lparr>messages = system # rest, totalTokens = total'\<rparr>)))"

text \<open>
  Which messages a call evicts. Each iteration of the loop shifts one message off the
  front of \<^verbatim>\<open>rest\<close>, so the list loses as many messages as the loop ran: they stood at
  the positions 1 to \<open>evicted_count\<close> of the input, and the output keeps position 0 and
  the positions after them.
\<close>

definition evicted_count :: "encoder \<Rightarrow> message list \<Rightarrow> int \<Rightarrow> nat" where
  "evicted_count enc H B =
     length H - length (messages (trimMessagesByTokenBudget enc (Some H) B))"

definition evicted_at :: "encoder \<Rightarrow> message list \<Rightarrow> int \<Rightarrow> nat \<Rightarrow> bool" where
  "evicted_at enc H B i = (1 \<le> i \<and> i \<le> evicted_count enc H B)"

definition retained_at :: "encoder \<Rightarrow> message list \<Rightarrow> int \<Rightarrow> nat \<Rightarrow> bool" where
  "retained_at enc H B j = (j < length H \<and> (j = 0 \<or> evicted_count enc H B < j))"

section \<open>The per-user documents in Firestore\<close>

text \<open>
  A document of the collection \<^verbatim>\<open>user_histories\<close>. Every field may be absent, since the
  writes merge into whatever fields a document has.
\<close>

text \<open>
  The usage counter is a JavaScript number. The server only ever writes a non-negative
  integer or, after an overflow, \<^verbatim>\<open>Infinity\<close> into it: \<open>\<infinity>\<close> here.
\<close>

record usage =
  usage_total :: enat
  last_updated :: nat

text \<open>
  The nearest IEEE 754 double to a natural number, ties to the even significand: a
  number below \<open>2 ^ 53\<close> is a double; a longer one loses the bits beyond the first 53,
  and what reaches \<open>2 ^ 1024\<close> is \<^verbatim>\<open>Infinity\<close>. \<open>bit_length n\<close> is the number of binary
  digits of \<open>n\<close>.
\<close>

fun bit_length :: "nat \<Rightarrow> nat" where
  "bit_length n = (if n = 0 then 0 else Suc (bit_length (n div 2)))"

declare bit_length.simps [simp del]

definition round_to_double :: "nat \<Rightarrow> enat" where
  "round_to_double n =
     (if n < 2 ^ 53 then enat n
      else (let e = bit_length n - 53;
                q = n div 2 ^ e;
                r = n mod 2 ^ e;
                m = (if 2 * r < 2 ^ e \<or> (2 * r = 2 ^ e \<and> even q) then q else q + 1)
            in if m * 2 ^ e < 2 ^ 1024 then enat (m * 2 ^ e) else \<infinity>))"

text \<open>
  \<^verbatim>\<open>current + tokensUsed\<close>, the addition of doubles, for a stored counter and a token
  count: the exact sum, rounded.
\<close>

definition js_add :: "enat \<Rightarrow> nat \<Rightarrow> enat" where
  "js_add current tokensUsed =
     (case current of enat n \<Rightarrow> round_to_double (n + tokensUsed) | \<infinity> \<Rightarrow> \<infinity>)"

record user_doc =
  history :: "message list option"
  total_tokens :: "nat option"
  token_usage :: "usage option"
  updated_at :: "nat option"

text \<open>
  The collection maps a uid to its document. The constant \<^verbatim>\<open>firestore\<close> of the source is
  \<^verbatim>\<open>null\<close> when Firebase Admin offers no Firestore: that is \<open>None\<close> here.
\<close>

type_synonym collection = "string \<Rightarrow> user_doc option"

datatype failure = TypeError | FirestoreError | OpenAIError

record loaded =
  loaded_history :: "message list"
  loaded_total_tokens :: nat

text \<open>
  Each helper below awaits Firestore, and the awaited call may reject. The flag \<open>fails\<close> says
  whether it does; a rejected call leaves the collection as it was. \<open>now\<close> is what
  \<^verbatim>\<open>Date.now()\<close> returns during the helper.
\<close>

definition loadUserHistory ::
  "encoder \<Rightarrow> nat \<Rightarrow> bool \<Rightarrow> collection option \<Rightarrow> string
     \<Rightarrow> (failure + loaded option) \<times> collection option" where
  "loadUserHistory enc now fails firestore uid =
     (case firestore of
        None \<Rightarrow> (Inr None, None)
      | Some docs \<Rightarrow>
          if fails then (Inl FirestoreError, Some docs)
          else (case docs uid of
                  None \<Rightarrow>
                    (Inr (Some \<lparr>loaded_history = [seed_message None],
                                 loaded_total_tokens = countTokensForContent enc SYSTEM_PROMPT\<rparr>),
                     Some (docs(uid \<mapsto>
                       \<lparr>history = Some [seed_message (Some now)],
                        total_tokens = Some (countTokensForContent enc SYSTEM_PROMPT),
                        token_usage = Some \<lparr>usage_total = 0, last_updated = now\<rparr>,
                        updated_at = Some now\<rparr>)))
                | Some data \<Rightarrow>
                    (Inr (Some \<lparr>loaded_history =
                                   (case history data of Some h \<Rightarrow> h
                                    | None \<Rightarrow> [seed_message None]),
                                 loaded_total_tokens =
                                   (case total_tokens data of Some n \<Rightarrow> n | None \<Rightarrow> 0)\<rparr>),
                     Some docs)))"

text \<open>\<^verbatim>\<open>{ role: r, content: text, ts: Date.now() }\<close>\<close>

definition new_message :: "string \<Rightarrow> string \<Rightarrow> nat \<Rightarrow> message" where
  "new_message r text now = \<lparr>role = r, content = text, ts = Some now\<rparr>"

text \<open>\<^verbatim>\<open>{ role: m.role, content: m.content, ts: m.ts || Date.now() }\<close>\<close>

definition stamp :: "nat \<Rightarrow> message \<Rightarrow> message" where
  "stamp now m =
     \<lparr>role = role m, content = content m,
      ts = Some (case ts m of Some t \<Rightarrow> if t = 0 then now else t | None \<Rightarrow> now)\<rparr>"

text \<open>
  \<^verbatim>\<open>saveUserHistory\<close> writes \<^verbatim>\<open>history\<close>, \<^verbatim>\<open>total_tokens\<close> and \<^verbatim>\<open>updated_at\<close> with
  \<^verbatim>\<open>{ merge: true }\<close>: the other fields of an existing document stay.
\<close>

definition saveUserHistory ::
  "nat \<Rightarrow> bool \<Rightarrow> collection option \<Rightarrow> string \<Rightarrow> message list \<Rightarrow> nat
     \<Rightarrow> (failure + unit) \<times> collection option" where
  "saveUserHistory now fails firestore uid hist tokens =
     (case firestore of
        None \<Rightarrow> (Inr (), None)
      | Some docs \<Rightarrow>
          if fails then (Inl FirestoreError, Some docs)
          else (Inr (),
                Some (docs(uid \<mapsto>
                  (case docs uid of
                     None \<Rightarrow> \<lparr>history = Some (map (stamp now) hist),
                               total_tokens = Some tokens,
                               token_usage = None,
                               updated_at = Some now\<rparr>
                   | Some data \<Rightarrow> data\<lparr>history := Some (map (stamp now) hist),
                                        total_tokens := Some tokens,
                                        updated_at := Some now\<rparr>)))))"

text \<open>
  \<^verbatim>\<open>addUserTokenUsage\<close>: inside \<^verbatim>\<open>firestore.runTransaction\<close>, read the document, take
  \<^verbatim>\<open>data.token_usage?.total || 0\<close>, and merge the new \<^verbatim>\<open>token_usage\<close> into the document.
  The transaction is one step of the model.
\<close>

definition addUserTokenUsage ::
  "nat \<Rightarrow> bool \<Rightarrow> collection option \<Rightarrow> string \<Rightarrow> nat
     \<Rightarrow> (failure + unit) \<times> collection option" where
  "addUserTokenUsage now fails firestore uid tokensUsed =
     (case firestore of
        None \<Rightarrow> (Inr (), None)
      | Some docs \<Rightarrow>
          if fails then (Inl FirestoreError, Some docs)
          else (let current =
                      (case docs uid of
                         None \<Rightarrow> 0
                       | Some data \<Rightarrow>
                           (case token_usage data of None \<Rightarrow> 0 | Some u \<Rightarrow> usage_total u));
                    new_usage = \<lparr>usage_total = js_add current tokensUsed,
                                 last_updated = now\<rparr>
                in (Inr (),
                    Some (docs(uid \<mapsto>
                      (case docs uid of
                         None \<Rightarrow> \<lparr>history = None, total_tokens = None,
                                   token_usage = Some new_usage, updated_at = None\<rparr>
                       | Some data \<Rightarrow> data\<lparr>token_usage := Some new_usage\<rparr>))))))"

text \<open>
  Reading a user's document: the document itself, its stored history, its usage counter
  field, and \<^verbatim>\<open>data.history || [{ role: 'system', content: SYSTEM_PROMPT }]\<close>, the history
  a load hands out.
\<close>

definition stored_doc :: "collection option \<Rightarrow> string \<Rightarrow> user_doc option" where
  "stored_doc firestore uid = (case firestore of None \<Rightarrow> None | Some docs \<Rightarrow> docs uid)"

definition stored_history :: "collection option \<Rightarrow> string \<Rightarrow> message list option" where
  "stored_history firestore uid =
     (case stored_doc firestore uid of None \<Rightarrow> None | Some data \<Rightarrow> history data)"

definition stored_total_tokens :: "collection option \<Rightarrow> string \<Rightarrow> nat option" where
  "stored_total_tokens firestore uid =
     (case stored_doc firestore uid of None \<Rightarrow> None | Some data \<Rightarrow> total_tokens data)"

definition stored_usage :: "collection option \<Rightarrow> string \<Rightarrow> usage option" where
  "stored_usage firestore uid =
     (case stored_doc firestore uid of None \<Rightarrow> None | Some data \<Rightarrow> token_usage data)"

definition usage_count :: "collection option \<Rightarrow> string \<Rightarrow> enat" where
  "usage_count firestore uid =
     (case stored_usage firestore uid of None \<Rightarrow> 0 | Some u \<Rightarrow> usage_total u)"

definition history_of :: "collection option \<Rightarrow> string \<Rightarrow> message list" where
  "history_of firestore uid =
     (case stored_history firestore uid of None \<Rightarrow> [seed_message None] | Some h \<Rightarrow> h)"

section \<open>Sessions and requests\<close>

text \<open>
  \<^verbatim>\<open>req.session\<close>: \<open>session_history\<close> is \<^verbatim>\<open>req.session.history\<close>, \<open>None\<close> when it is absent
  or not an array.
\<close>

record session_data =
  session_history :: "message list option"
  history_total_tokens :: "nat option"

text \<open>The values \<^verbatim>\<open>express.json()\<close> can put into \<^verbatim>\<open>req.body.message\<close>.\<close>

datatype json =
    JNull
  | JBool bool
  | JNum real
  | JStr string
  | JArr "json list"
  | JObj "(string \<times> json) list"

fun truthy :: "json \<Rightarrow> bool" where
  "truthy JNull = False"
| "truthy (JBool b) = b"
| "truthy (JNum n) = (n \<noteq> 0)"
| "truthy (JStr s) = (s \<noteq> [])"
| "truthy (JArr xs) = True"
| "truthy (JObj kvs) = True"

fun is_string :: "json \<Rightarrow> bool" where
  "is_string (JStr s) = True"
| "is_string v = False"

text \<open>
  \<open>user_uid\<close> is \<^verbatim>\<open>req.user.uid\<close> (\<open>None\<close> when \<^verbatim>\<open>maybeAuthenticate\<close> set no user),
  \<open>body_message\<close> is \<^verbatim>\<open>req.body?.message\<close> (\<open>None\<close> when undefined).
\<close>

record request =
  user_uid :: "string option"
  body_message :: "json option"
  session :: session_data

definition ensureAnonHistory :: "encoder \<Rightarrow> nat \<Rightarrow> session_data \<Rightarrow> session_data" where
  "ensureAnonHistory enc now s =
     (case session_history s of
        None \<Rightarrow> s\<lparr>session_history := Some [seed_message (Some now)],
                  history_total_tokens := Some (countTokensForContent enc SYSTEM_PROMPT)\<rparr>
      | Some h \<Rightarrow> s)"

text \<open>\<^verbatim>\<open>req.user && req.user.uid && firestore\<close>\<close>

definition authenticated :: "collection option \<Rightarrow> request \<Rightarrow> string option" where
  "authenticated firestore req =
     (case user_uid req of
        None \<Rightarrow> None
      | Some uid \<Rightarrow> if uid \<noteq> [] \<and> firestore \<noteq> None then Some uid else None)"

section \<open>Building the conversation\<close>

datatype persists = ToFirestore | ToSession

record conversation =
  conv_messages :: "message list"
  conv_totalTokens :: nat
  persistsTo :: persists
  conv_uid :: "string option"

text \<open>
  \<^verbatim>\<open>buildConversation(req, userMessage)\<close> returns its result (or the error it throws)
  together with the collection and the session as it leaves them. \<open>maxT\<close> is
  \<^verbatim>\<open>HISTORY_MAX_TOKENS\<close>.
\<close>

definition buildConversation ::
  "encoder \<Rightarrow> int \<Rightarrow> nat \<Rightarrow> bool \<Rightarrow> collection option \<Rightarrow> request \<Rightarrow> string
     \<Rightarrow> (failure + conversation) \<times> collection option \<times> session_data" where
  "buildConversation enc maxT now fails firestore req userMessage =
     (case authenticated firestore req of
        Some uid \<Rightarrow>
          (case loadUserHistory enc now fails firestore uid of
             (Inl e, firestore') \<Rightarrow> (Inl e, firestore', session req)
           | (Inr None, firestore') \<Rightarrow> (Inl TypeError, firestore', session req)
           | (Inr (Some l), firestore') \<Rightarrow>
               (let hist = map (stamp now) (loaded_history l)
                             @ [new_message ''user'' userMessage now];
                    r = trimMessagesByTokenBudget enc (Some hist) maxT
                in (Inr \<lparr>conv_messages = messages r, conv_totalTokens = totalTokens r,
                         persistsTo = ToFirestore, conv_uid = Some uid\<rparr>,
                    firestore', session req)))
      | None \<Rightarrow>
          (let s1 = ensureAnonHistory enc now (session req) in
           case session_history s1 of
             None \<Rightarrow> (Inl TypeError, firestore, s1)
           | Some h \<Rightarrow>
               (let hist = h @ [new_message ''user'' userMessage now];
                    r = trimMessagesByTokenBudget enc (Some hist) maxT
                in (Inr \<lparr>conv_messages = messages r, conv_totalTokens = totalTokens r,
                         persistsTo = ToSession, conv_uid = None\<rparr>,
                    firestore,
                    s1\<lparr>session_history := Some (messages r),
                       history_total_tokens := Some (totalTokens r)\<rparr>))))"

section \<open>The routes\<close>

text \<open>
  A response: the body of a successful chat (reply, prompt, completion and total tokens),
  the message of a successful reset, or a status with its \<^verbatim>\<open>error\<close> text and, where the
  handler caught something, what it caught (the source puts its text into \<^verbatim>\<open>details\<close>).
\<close>

datatype response =
    ChatReply string nat nat nat
  | ResetOk string
  | ErrorResponse nat string "failure option"

text \<open>\<^verbatim>\<open>String.prototype.trim\<close> on the white space a \<open>char\<close> can hold.\<close>

definition is_ws :: "char \<Rightarrow> bool" where
  "is_ws c = (of_char c \<in> {9, 10, 11, 12, 13, 32, 160 :: nat})"

definition js_trim :: "string \<Rightarrow> string" where
  "js_trim s = rev (dropWhile is_ws (rev (dropWhile is_ws s)))"

text \<open>
  \<^verbatim>\<open>(req.body?.message || '').trim()\<close>: a falsy or missing message gives the empty
  string; a truthy value that is not a string has no \<^verbatim>\<open>trim\<close> method, and the call throws.
\<close>

definition message_text :: "json option \<Rightarrow> failure + string" where
  "message_text m =
     (case (case m of None \<Rightarrow> JStr [] | Some v \<Rightarrow> if truthy v then v else JStr []) of
        JStr s \<Rightarrow> Inr (js_trim s)
      | _ \<Rightarrow> Inl TypeError)"

text \<open>
  What the external calls of one \<^verbatim>\<open>/api/chat\<close> request do: the clock while the
  conversation is built and while the result is persisted, whether each Firestore helper
  call rejects, and the completion: an error, or
  \<^verbatim>\<open>completion?.choices?.[0]?.message?.content\<close> (\<open>None\<close> when that is undefined).
\<close>

record chat_io =
  build_now :: nat
  persist_now :: nat
  load_fails :: bool
  completion :: "failure + string option"
  reload_fails :: bool
  save_fails :: bool
  usage_fails :: bool

definition DEFAULT_REPLY :: string where
  "DEFAULT_REPLY = ''Handina kupindura zvakanaka. Edza zvakare.''"

text \<open>
  \<^verbatim>\<open>completion?.choices?.[0]?.message?.content || 'Handina kupindura zvakanaka. Edza zvakare.'\<close>
\<close>

definition reply_text :: "string option \<Rightarrow> string" where
  "reply_text c =
     (case c of None \<Rightarrow> DEFAULT_REPLY | Some t \<Rightarrow> if t = [] then DEFAULT_REPLY else t)"

text \<open>\<^verbatim>\<open>persistsTo === 'firestore' && uid\<close>\<close>

definition firestore_uid :: "conversation \<Rightarrow> string option" where
  "firestore_uid conv =
     (if persistsTo conv = ToFirestore
      then (case conv_uid conv of
              None \<Rightarrow> None
            | Some uid \<Rightarrow> if uid \<noteq> [] then Some uid else None)
      else None)"

text \<open>
  The persistence step of \<^verbatim>\<open>/api/chat\<close> (the \<^verbatim>\<open>if\<close> after the token counts): for
  Firestore, load the history again, push the user and the assistant message, trim,
  save, then add the usage; for a session, push the assistant message and trim.
\<close>

definition persist_chat ::
  "encoder \<Rightarrow> int \<Rightarrow> chat_io \<Rightarrow> collection option \<Rightarrow> session_data \<Rightarrow> conversation
     \<Rightarrow> string \<Rightarrow> string \<Rightarrow> nat \<Rightarrow> (failure + unit) \<times> collection option \<times> session_data" where
  "persist_chat enc maxT io firestore sess conv userMessage assistantText totalRequestTokens =
     (case firestore_uid conv of
        Some uid \<Rightarrow>
          (case loadUserHistory enc (persist_now io) (reload_fails io) firestore uid of
             (Inl e, fs1) \<Rightarrow> (Inl e, fs1, sess)
           | (Inr None, fs1) \<Rightarrow> (Inl TypeError, fs1, sess)
           | (Inr (Some l), fs1) \<Rightarrow>
               (let hist = loaded_history l
                      @ [new_message ''user'' userMessage (persist_now io),
                         new_message ''assistant'' assistantText (persist_now io)];
                    r = trimMessagesByTokenBudget enc (Some hist) maxT
                in case saveUserHistory (persist_now io) (save_fails io) fs1 uid
                          (messages r) (totalTokens r) of
                     (Inl e, fs2) \<Rightarrow> (Inl e, fs2, sess)
                   | (Inr u, fs2) \<Rightarrow>
                       (case addUserTokenUsage (persist_now io) (usage_fails io) fs2 uid
                               totalRequestTokens of
                          (Inl e, fs3) \<Rightarrow> (Inl e, fs3, sess)
                        | (Inr u', fs3) \<Rightarrow> (Inr (), fs3, sess))))
      | None \<Rightarrow>
          (let s1 = ensureAnonHistory enc (persist_now io) sess in
           case session_history s1 of
             None \<Rightarrow> (Inl TypeError, firestore, s1)
           | Some h \<Rightarrow>
               (let hist = h @ [new_message ''assistant'' assistantText (persist_now io)];
                    r = trimMessagesByTokenBudget enc (Some hist) maxT
                in (Inr (), firestore,
                    s1\<lparr>session_history := Some (messages r),
                       history_total_tokens := Some (totalTokens r)\<rparr>))))"

text \<open>
  \<^verbatim>\<open>app.post('/api/chat', ...)\<close>: the response, and the collection and the session after
  the request. Everything the \<^verbatim>\<open>try\<close> block throws ends in the \<^verbatim>\<open>catch\<close>, which answers
  500 and undoes nothing.
\<close>

definition chat_handler ::
  "encoder \<Rightarrow> int \<Rightarrow> chat_io \<Rightarrow> collection option \<Rightarrow> request
     \<Rightarrow> response \<times> collection option \<times> session_data" where
  "chat_handler enc maxT io firestore req =
     (case message_text (body_message req) of
        Inl e \<Rightarrow> (ErrorResponse 500 ''Failed to process chat'' (Some e), firestore, session req)
      | Inr userMessage \<Rightarrow>
          if userMessage = []
          then (ErrorResponse 400 ''message is required'' None, firestore, session req)
          else
            (case buildConversation enc maxT (build_now io) (load_fails io) firestore req
                    userMessage of
               (Inl e, fs1, s1) \<Rightarrow>
                 (ErrorResponse 500 ''Failed to process chat'' (Some e), fs1, s1)
             | (Inr conv, fs1, s1) \<Rightarrow>
                 (case completion io of
                    Inl e \<Rightarrow> (ErrorResponse 500 ''Failed to process chat'' (Some e), fs1, s1)
                  | Inr c \<Rightarrow>
                      (let assistantText = reply_text c;
                           openaiMessages =
                             map (\<lambda>m. \<lparr>role = role m, content = content m, ts = None\<rparr>)
                               (conv_messages conv);
                           promptTokens = countTokensForMessagesArray enc openaiMessages;
                           completionTokens = countTokensForContent enc assistantText;
                           totalRequestTokens = promptTokens + completionTokens
                       in case persist_chat enc maxT io fs1 s1 conv userMessage assistantText
                                 totalRequestTokens of
                            (Inl e, fs2, s2) \<Rightarrow>
                              (ErrorResponse 500 ''Failed to process chat'' (Some e), fs2, s2)
                          | (Inr u, fs2, s2) \<Rightarrow>
                              (ChatReply assistantText promptTokens completionTokens
                                 totalRequestTokens, fs2, s2)))))"

text \<open>\<^verbatim>\<open>app.post('/api/reset', ...)\<close>\<close>

definition reset_handler ::
  "encoder \<Rightarrow> nat \<Rightarrow> bool \<Rightarrow> collection option \<Rightarrow> request
     \<Rightarrow> response \<times> collection option \<times> session_data" where
  "reset_handler enc now fails firestore req =
     (case authenticated firestore req of
        Some uid \<Rightarrow>
          (case saveUserHistory now fails firestore uid [seed_message None]
                  (countTokensForContent enc SYSTEM_PROMPT) of
             (Inl e, fs1) \<Rightarrow>
               (ErrorResponse 500 ''Failed to reset history'' (Some e), fs1, session req)
           | (Inr u, fs1) \<Rightarrow> (ResetOk ''User history reset.'', fs1, session req))
      | None \<Rightarrow>
          (ResetOk ''Session history reset.'', firestore,
           (session req)\<lparr>session_history := Some [seed_message (Some now)],
                         history_total_tokens :=
                           Some (countTokensForContent enc SYSTEM_PROMPT)\<rparr>))"

text \<open>
  The history one chat turn of an authenticated user saves, as the handler computes it:
  the history a load hands out, with the user and the assistant message pushed, trimmed,
  and stamped by the save.
\<close>

definition turn_history ::
  "encoder \<Rightarrow> int \<Rightarrow> nat \<Rightarrow> collection option \<Rightarrow> string \<Rightarrow> string \<Rightarrow> string \<Rightarrow> message list" where
  "turn_history enc maxT now firestore uid userMessage assistantText =
     map (stamp now)
       (messages (trimMessagesByTokenBudget enc
          (Some (history_of firestore uid
                 @ [new_message ''user'' userMessage now,
                    new_message ''assistant'' assistantText now]))
          maxT))"

section \<open>Inputs for evaluation\<close>

text \<open>
  Two encoders to run the model on: one token per character, and one that always throws,
  so that the estimate falls back to \<^verbatim>\<open>Math.ceil(text.length / 4)\<close>.
\<close>

definition unit_encoder :: encoder where
  "unit_encoder text = Some (map of_char text)"

definition failing_encoder :: encoder where
  "failing_encoder text = None"

definition sys_msg :: message where
  "sys_msg = \<lparr>role = ''system'', content = ''Shona.'', ts = None\<rparr>"

definition user_msg :: "string \<Rightarrow> message" where
  "user_msg text = \<lparr>role = ''user'', content = text, ts = None\<rparr>"

definition assistant_msg :: "string \<Rightarrow> message" where
  "assistant_msg text = \<lparr>role = ''assistant'', content = text, ts = None\<rparr>"

text \<open>A stored document, a collection holding it, requests, and outcomes of the external calls.\<close>

definition alice_doc :: user_doc where
  "alice_doc =
     \<lparr>history = Some [sys_msg], total_tokens = Some 12,
      token_usage = Some \<lparr>usage_total = 40, last_updated = 1\<rparr>, updated_at = Some 1\<rparr>"

definition demo_docs :: collection where
  "demo_docs = [''alice'' \<mapsto> alice_doc]"

definition empty_session :: session_data where
  "empty_session = \<lparr>session_history = None, history_total_tokens = None\<rparr>"

definition chat_request :: "string option \<Rightarrow> json \<Rightarrow> request" where
  "chat_request uid v = \<lparr>user_uid = uid, body_message = Some v, session = empty_session\<rparr>"

definition ok_io :: chat_io where
  "ok_io =
     \<lparr>build_now = 100, persist_now = 200, load_fails = False,
      completion = Inr (Some ''Mhoro, ndeipi?''),
      reload_fails = False, save_fails = False, usage_fails = False\<rparr>"

section \<open>Properties of the token estimate\<close>

lemma foldl_tokens_acc:
  "foldl (\<lambda>total m. total + (countTokensForContent enc (content m) + 4)) a msgs
     = a + foldl (\<lambda>total m. total + (countTokensForContent enc (content m) + 4)) 0 msgs"
proof (induction msgs arbitrary: a)
  case Nil
  show ?case by simp
next
  case (Cons m msgs)
  show ?case
    using Cons.IH [of "a + (countTokensForContent enc (content m) + 4)"]
          Cons.IH [of "countTokensForContent enc (content m) + 4"]
    by simp
qed

lemma count_messages_Nil: "countTokensForMessagesArray enc [] = 2"
  by (simp add: countTokensForMessagesArray_def)

lemma count_messages_Cons:
  "countTokensForMessagesArray enc (m # msgs)
     = countTokensForContent enc (content m) + 4 + countTokensForMessagesArray enc msgs"
  using foldl_tokens_acc [of enc "countTokensForContent enc (content m) + 4" msgs]
  by (simp add: countTokensForMessagesArray_def)

lemma count_messages_single:
  "countTokensForMessagesArray enc [m] = countTokensForContent enc (content m) + 6"
  by (simp add: count_messages_Cons count_messages_Nil)

lemma count_messages_ge_single:
  "countTokensForMessagesArray enc [m] \<le> countTokensForMessagesArray enc (m # msgs)"
  by (induction msgs) (simp_all add: count_messages_Cons count_messages_Nil)

subsection \<open>The loop\<close>

lemma trim_loop_suffix:
  "\<exists>k\<le>length rest. fst (trim_loop enc sys rest tot B) = drop k rest"
proof (induction rest arbitrary: tot)
  case Nil
  show ?case by simp
next
  case (Cons r rest)
  show ?case
  proof (cases "int tot > B")
    case True
    from Cons.IH [of "countTokensForMessagesArray enc (sys # rest)"]
    obtain k where "k \<le> length rest"
      and "fst (trim_loop enc sys rest (countTokensForMessagesArray enc (sys # rest)) B) = drop k rest"
      by blast
    with True have "Suc k \<le> length (r # rest) \<and> fst (trim_loop enc sys (r # rest) tot B) = drop (Suc k) (r # rest)"
      by simp
    then show ?thesis by blast
  next
    case False
    then have "0 \<le> length (r # rest) \<and> fst (trim_loop enc sys (r # rest) tot B) = drop 0 (r # rest)"
      by simp
    then show ?thesis by blast
  qed
qed

lemma trim_loop_total:
  "tot = countTokensForMessagesArray enc (sys # rest) \<Longrightarrow>
   snd (trim_loop enc sys rest tot B)
     = countTokensForMessagesArray enc (sys # fst (trim_loop enc sys rest tot B))"
  by (induction rest arbitrary: tot) simp_all

lemma trim_loop_within:
  "fst (trim_loop enc sys rest tot B) \<noteq> [] \<Longrightarrow> int (snd (trim_loop enc sys rest tot B)) \<le> B"
  by (induction rest arbitrary: tot) (simp_all split: if_splits)

lemma trim_loop_over:
  "B < int (countTokensForMessagesArray enc [sys]) \<Longrightarrow>
   tot = countTokensForMessagesArray enc (sys # rest) \<Longrightarrow>
   trim_loop enc sys rest tot B = ([], countTokensForMessagesArray enc [sys])"
proof (induction rest arbitrary: tot)
  case Nil
  then show ?case by simp
next
  case (Cons r rest)
  have "countTokensForMessagesArray enc [sys] \<le> countTokensForMessagesArray enc (sys # r # rest)"
    by (rule count_messages_ge_single)
  with Cons.prems have "B < int tot" by simp
  with Cons.IH [OF Cons.prems(1) refl] show ?case by simp
qed

lemmas eval_tokens =
  count_messages_Cons count_messages_Nil countTokensForContent_def unit_encoder_def
  sys_msg_def user_msg_def assistant_msg_def

section \<open>Properties of the trimming engine\<close>

text \<open>
  On a non-empty list the output is the first message followed by the input's remaining
  messages from some position on.
\<close>

lemma trim_output_shape:
  assumes "H \<noteq> []"
  shows "\<exists>k\<le>length (tl H).
           messages (trimMessagesByTokenBudget enc (Some H) B) = H ! 0 # drop k (tl H)"
proof (cases H)
  case Nil
  with assms show ?thesis by simp
next
  case (Cons sys rest0)
  let ?tot = "countTokensForMessagesArray enc (sys # rest0)"
  show ?thesis
  proof (cases "int ?tot \<le> B")
    case True
    with Cons have "messages (trimMessagesByTokenBudget enc (Some H) B) = H ! 0 # drop 0 (tl H)"
      by (simp add: trimMessagesByTokenBudget_def)
    then show ?thesis by blast
  next
    case False
    obtain k where k: "k \<le> length rest0" "fst (trim_loop enc sys rest0 ?tot B) = drop k rest0"
      using trim_loop_suffix [of rest0 enc sys ?tot B] by blast
    with False Cons
    have "k \<le> length (tl H) \<and> messages (trimMessagesByTokenBudget enc (Some H) B) = H ! 0 # drop k (tl H)"
      by (simp add: trimMessagesByTokenBudget_def Let_def case_prod_beta)
    then show ?thesis by blast
  qed
qed

lemma evicted_count_shape:
  assumes "H \<noteq> []"
  shows "evicted_count enc H B < length H"
    and "messages (trimMessagesByTokenBudget enc (Some H) B)
           = H ! 0 # drop (Suc (evicted_count enc H B)) H"
proof -
  obtain k where k: "k \<le> length (tl H)"
    and out: "messages (trimMessagesByTokenBudget enc (Some H) B) = H ! 0 # drop k (tl H)"
    using trim_output_shape [OF assms] by blast
  from assms k out have count: "evicted_count enc H B = k"
    by (cases H) (simp_all add: evicted_count_def)
  from assms k count show "evicted_count enc H B < length H"
    by (cases H) simp_all
  from assms out count
  show "messages (trimMessagesByTokenBudget enc (Some H) B)
          = H ! 0 # drop (Suc (evicted_count enc H B)) H"
    by (cases H) simp_all
qed

text \<open>
  Claim C1. For a non-empty message list whose first message has the role system, and
  for every budget, the trimmed list is not empty and its first message is the first
  message of the input: trimming neither evicts nor moves the system message.
\<close>

theorem trim_keeps_system_message:
  assumes "H \<noteq> []" and "role (H ! 0) = ''system''"
  shows "messages (trimMessagesByTokenBudget enc (Some H) B) \<noteq> []
       \<and> messages (trimMessagesByTokenBudget enc (Some H) B) ! 0 = H ! 0"
proof (cases H)
  case Nil
  with assms show ?thesis by simp
next
  case (Cons sys rest0)
  then show ?thesis
    by (simp add: trimMessagesByTokenBudget_def Let_def case_prod_beta)
qed

theorem trim_keeps_system_message_witness:
  "[sys_msg, user_msg ''Mhoro'', assistant_msg ''Mhoro, ndeipi?''] \<noteq> []
   \<and> role ([sys_msg, user_msg ''Mhoro'', assistant_msg ''Mhoro, ndeipi?''] ! 0) = ''system''
   \<and> messages (trimMessagesByTokenBudget unit_encoder
        (Some [sys_msg, user_msg ''Mhoro'', assistant_msg ''Mhoro, ndeipi?'']) 30) ! 0 = sys_msg"
proof -
  let ?H = "[sys_msg, user_msg ''Mhoro'', assistant_msg ''Mhoro, ndeipi?'']"
  have h1: "?H \<noteq> []" by simp
  have h2: "role (?H ! 0) = ''system''" by (simp add: sys_msg_def)
  show ?thesis
    using h1 h2 trim_keeps_system_message [OF h1 h2, of unit_encoder 30] by simp
qed

text \<open>
  Claim C2. \<^const>\<open>trimMessagesByTokenBudget\<close> is a total function, so it returns on every
  input. Read the estimate of the system message alone as the estimate of the list that
  holds only that message (its content estimate plus the overheads 4 and 2), which is
  the count the engine reports for it. For a non-empty list: when the budget is at least
  that estimate, the estimate of the output is within the budget and is the reported
  count; when the budget is below it, the output is the system message alone with that
  estimate as the reported count.
\<close>

theorem trim_converges:
  assumes "H \<noteq> []"
  shows "(int (countTokensForMessagesArray enc [H ! 0]) \<le> B \<longrightarrow>
            int (countTokensForMessagesArray enc (messages (trimMessagesByTokenBudget enc (Some H) B))) \<le> B
          \<and> totalTokens (trimMessagesByTokenBudget enc (Some H) B)
              = countTokensForMessagesArray enc (messages (trimMessagesByTokenBudget enc (Some H) B)))
       \<and> (B < int (countTokensForMessagesArray enc [H ! 0]) \<longrightarrow>
            messages (trimMessagesByTokenBudget enc (Some H) B) = [H ! 0]
          \<and> totalTokens (trimMessagesByTokenBudget enc (Some H) B)
              = countTokensForMessagesArray enc [H ! 0])"
proof (cases H)
  case Nil
  with assms show ?thesis by simp
next
  case (Cons sys rest0)
  let ?tot = "countTokensForMessagesArray enc (sys # rest0)"
  let ?loop = "trim_loop enc sys rest0 ?tot B"
  have single: "countTokensForMessagesArray enc [sys] \<le> ?tot"
    by (rule count_messages_ge_single)
  show ?thesis
  proof (cases "int ?tot \<le> B")
    case True
    with single Cons show ?thesis
      by (simp add: trimMessagesByTokenBudget_def)
  next
    case False
    have out: "trimMessagesByTokenBudget enc (Some H) B
                 = \<lparr>messages = sys # fst ?loop, totalTokens = snd ?loop\<rparr>"
      using False Cons by (simp add: trimMessagesByTokenBudget_def Let_def case_prod_beta)
    have tot: "snd ?loop = countTokensForMessagesArray enc (sys # fst ?loop)"
      by (rule trim_loop_total) simp
    have within: "int (countTokensForMessagesArray enc [sys]) \<le> B \<Longrightarrow> int (snd ?loop) \<le> B"
    proof (cases "fst ?loop = []")
      case True
      assume "int (countTokensForMessagesArray enc [sys]) \<le> B"
      with True tot show ?thesis by simp
    next
      case False
      then show ?thesis by (rule trim_loop_within)
    qed
    have over: "B < int (countTokensForMessagesArray enc [sys]) \<Longrightarrow>
                  ?loop = ([], countTokensForMessagesArray enc [sys])"
      by (rule trim_loop_over) simp_all
    show ?thesis
    proof (intro conjI impI)
      assume "int (countTokensForMessagesArray enc [H ! 0]) \<le> B"
      with Cons within tot out
      show "int (countTokensForMessagesArray enc (messages (trimMessagesByTokenBudget enc (Some H) B))) \<le> B"
        by simp
    next
      from tot out
      show "totalTokens (trimMessagesByTokenBudget enc (Some H) B)
              = countTokensForMessagesArray enc (messages (trimMessagesByTokenBudget enc (Some H) B))"
        by simp
    next
      assume "B < int (countTokensForMessagesArray enc [H ! 0])"
      with Cons over out
      show "messages (trimMessagesByTokenBudget enc (Some H) B) = [H ! 0]"
        by simp
    next
      assume "B < int (countTokensForMessagesArray enc [H ! 0])"
      with Cons over out
      show "totalTokens (trimMessagesByTokenBudget enc (Some H) B)
              = countTokensForMessagesArray enc [H ! 0]"
        by simp
    qed
  qed
qed

theorem trim_converges_witness:
  "[sys_msg, user_msg ''Mhoro''] \<noteq> []
   \<and> countTokensForMessagesArray unit_encoder [sys_msg] = 12
   \<and> messages (trimMessagesByTokenBudget unit_encoder (Some [sys_msg, user_msg ''Mhoro'']) 10)
       = [sys_msg]
   \<and> totalTokens (trimMessagesByTokenBudget unit_encoder (Some [sys_msg, user_msg ''Mhoro'']) 10)
       = 12
   \<and> int (countTokensForMessagesArray unit_encoder
        (messages (trimMessagesByTokenBudget unit_encoder (Some [sys_msg, user_msg ''Mhoro'']) 12)))
       \<le> 12"
proof -
  let ?H = "[sys_msg, user_msg ''Mhoro'']"
  have h: "?H \<noteq> []" by simp
  have e: "countTokensForMessagesArray unit_encoder [sys_msg] = 12"
    by (simp add: eval_tokens)
  show ?thesis
    using h e trim_converges [OF h, of unit_encoder 10] trim_converges [OF h, of unit_encoder 12]
    by simp
qed

text \<open>
  Claim C6, as amended. For a non-empty message list whose estimate is within the
  budget, the engine returns the list itself with that estimate.
\<close>

theorem trim_identity_under_budget:
  assumes "H \<noteq> []" and "int (countTokensForMessagesArray enc H) \<le> B"
  shows "trimMessagesByTokenBudget enc (Some H) B
           = \<lparr>messages = H, totalTokens = countTokensForMessagesArray enc H\<rparr>"
  using assms by (cases H) (simp_all add: trimMessagesByTokenBudget_def)

theorem trim_identity_under_budget_witness:
  "[sys_msg, user_msg ''Mhoro''] \<noteq> []
   \<and> int (countTokensForMessagesArray unit_encoder [sys_msg, user_msg ''Mhoro'']) \<le> 3000
   \<and> trimMessagesByTokenBudget unit_encoder (Some [sys_msg, user_msg ''Mhoro'']) 3000
       = \<lparr>messages = [sys_msg, user_msg ''Mhoro''], totalTokens = 21\<rparr>"
proof -
  let ?H = "[sys_msg, user_msg ''Mhoro'']"
  have h1: "?H \<noteq> []" by simp
  have e: "countTokensForMessagesArray unit_encoder ?H = 21"
    by (simp add: eval_tokens)
  then have h2: "int (countTokensForMessagesArray unit_encoder ?H) \<le> 3000" by simp
  show ?thesis
    using h1 h2 e trim_identity_under_budget [OF h1 h2] by simp
qed

text \<open>
  Claim C6 as stated covers the empty list too. Its estimate is 2, within a budget of
  3000, yet the engine returns the seeded system message and not the empty list.
\<close>

theorem trim_identity_fails_on_empty:
  "int (countTokensForMessagesArray failing_encoder []) \<le> 3000
   \<and> trimMessagesByTokenBudget failing_encoder (Some []) 3000
       \<noteq> \<lparr>messages = [], totalTokens = countTokensForMessagesArray failing_encoder []\<rparr>"
  by (simp add: trimMessagesByTokenBudget_def count_messages_Nil)

text \<open>
  Claim C7, as amended. For a non-empty message list whose first message has the role
  system, and for every budget: the output is the first message followed by the
  messages after the evicted positions, and every retained message that is not a system
  message stands later in the input than every evicted message.
\<close>

theorem trim_evicts_oldest:
  assumes "H \<noteq> []" and "role (H ! 0) = ''system''"
  shows "messages (trimMessagesByTokenBudget enc (Some H) B)
           = H ! 0 # drop (Suc (evicted_count enc H B)) H
       \<and> evicted_count enc H B < length H
       \<and> (\<forall>i j. evicted_at enc H B i \<and> retained_at enc H B j \<and> role (H ! j) \<noteq> ''system''
                 \<longrightarrow> i < j)"
proof (intro conjI allI impI)
  show "messages (trimMessagesByTokenBudget enc (Some H) B)
          = H ! 0 # drop (Suc (evicted_count enc H B)) H"
    using assms(1) by (rule evicted_count_shape(2))
  show "evicted_count enc H B < length H"
    using assms(1) by (rule evicted_count_shape(1))
next
  fix i j
  assume a: "evicted_at enc H B i \<and> retained_at enc H B j \<and> role (H ! j) \<noteq> ''system''"
  have "j \<noteq> 0"
  proof
    assume "j = 0"
    with a assms(2) show False by simp
  qed
  with a show "i < j"
    by (simp add: evicted_at_def retained_at_def)
qed

theorem trim_evicts_oldest_witness:
  "[sys_msg, user_msg ''Mhoro'', assistant_msg ''Mhoro, ndeipi?'', user_msg ''Ndiripo''] \<noteq> []
   \<and> role ([sys_msg, user_msg ''Mhoro'', assistant_msg ''Mhoro, ndeipi?'',
             user_msg ''Ndiripo''] ! 0) = ''system''
   \<and> messages (trimMessagesByTokenBudget unit_encoder
        (Some [sys_msg, user_msg ''Mhoro'', assistant_msg ''Mhoro, ndeipi?'',
               user_msg ''Ndiripo'']) 30)
       = [sys_msg, user_msg ''Ndiripo'']
   \<and> evicted_count unit_encoder
        [sys_msg, user_msg ''Mhoro'', assistant_msg ''Mhoro, ndeipi?'', user_msg ''Ndiripo''] 30
       = 2
   \<and> evicted_at unit_encoder
        [sys_msg, user_msg ''Mhoro'', assistant_msg ''Mhoro, ndeipi?'', user_msg ''Ndiripo''] 30 2
   \<and> retained_at unit_encoder
        [sys_msg, user_msg ''Mhoro'', assistant_msg ''Mhoro, ndeipi?'', user_msg ''Ndiripo''] 30 3
   \<and> role ([sys_msg, user_msg ''Mhoro'', assistant_msg ''Mhoro, ndeipi?'',
             user_msg ''Ndiripo''] ! 3) \<noteq> ''system''
   \<and> (2::nat) < 3"
proof -
  let ?H = "[sys_msg, user_msg ''Mhoro'', assistant_msg ''Mhoro, ndeipi?'', user_msg ''Ndiripo'']"
  have h1: "?H \<noteq> []" by simp
  have h2: "role (?H ! 0) = ''system''" by (simp add: sys_msg_def)
  have out: "messages (trimMessagesByTokenBudget unit_encoder (Some ?H) 30)
               = [sys_msg, user_msg ''Ndiripo'']"
    by (simp add: trimMessagesByTokenBudget_def eval_tokens)
  then have count: "evicted_count unit_encoder ?H 30 = 2"
    by (simp add: evicted_count_def)
  have r: "role (?H ! 3) \<noteq> ''system''" by (simp add: user_msg_def)
  show ?thesis
    using h1 h2 out count r trim_evicts_oldest [OF h1 h2, of unit_encoder 30]
    by (simp add: evicted_at_def retained_at_def)
qed

text \<open>
  Claim C7 as stated covers every message list. Where the first message is not a system
  message the engine still keeps it: here the second message is evicted while the
  first, which is older and not a system message either, is retained.
\<close>

theorem trim_keeps_first_evicts_second:
  "messages (trimMessagesByTokenBudget unit_encoder
     (Some [user_msg ''aaaa'', user_msg ''bbbb'', user_msg ''cc'']) 17)
     = [user_msg ''aaaa'', user_msg ''cc'']
   \<and> evicted_at unit_encoder [user_msg ''aaaa'', user_msg ''bbbb'', user_msg ''cc''] 17 1
   \<and> role ([user_msg ''aaaa'', user_msg ''bbbb'', user_msg ''cc''] ! 1) \<noteq> ''system''
   \<and> retained_at unit_encoder [user_msg ''aaaa'', user_msg ''bbbb'', user_msg ''cc''] 17 0
   \<and> role ([user_msg ''aaaa'', user_msg ''bbbb'', user_msg ''cc''] ! 0) \<noteq> ''system''
   \<and> \<not> (1::nat) < 0"
proof -
  have out: "messages (trimMessagesByTokenBudget unit_encoder
               (Some [user_msg ''aaaa'', user_msg ''bbbb'', user_msg ''cc'']) 17)
             = [user_msg ''aaaa'', user_msg ''cc'']"
    by (simp add: trimMessagesByTokenBudget_def eval_tokens)
  then have "evicted_count unit_encoder [user_msg ''aaaa'', user_msg ''bbbb'', user_msg ''cc''] 17
               = 1"
    by (simp add: evicted_count_def)
  with out show ?thesis
    by (simp add: evicted_at_def retained_at_def user_msg_def)
qed

text \<open>
  Claim C10. For every budget, an empty or a missing message list gives the seeded
  system message alone, reported with the content estimate of the system prompt; the
  estimate of the returned list is larger by exactly 6, the overheads 4 and 2.
\<close>

theorem trim_empty_omits_overhead:
  "trimMessagesByTokenBudget enc None B
     = \<lparr>messages = [seed_message None], totalTokens = countTokensForContent enc SYSTEM_PROMPT\<rparr>
   \<and> trimMessagesByTokenBudget enc (Some []) B
     = \<lparr>messages = [seed_message None], totalTokens = countTokensForContent enc SYSTEM_PROMPT\<rparr>
   \<and> countTokensForMessagesArray enc (messages (trimMessagesByTokenBudget enc None B))
     = totalTokens (trimMessagesByTokenBudget enc None B) + 6
   \<and> countTokensForMessagesArray enc (messages (trimMessagesByTokenBudget enc (Some []) B))
     = totalTokens (trimMessagesByTokenBudget enc (Some []) B) + 6"
  by (simp add: trimMessagesByTokenBudget_def count_messages_single seed_message_def)

section \<open>Properties of the usage counter\<close>

lemma bit_length_bounds:
  "2 ^ k \<le> n \<Longrightarrow> n < 2 ^ Suc k \<Longrightarrow> bit_length n = Suc k"
proof (induction k arbitrary: n)
  case 0
  then have "n = 1" by simp
  then show ?case by (simp add: bit_length.simps [of "Suc 0"] bit_length.simps [of 0])
next
  case (Suc k)
  then have "2 ^ k \<le> n div 2" and "n div 2 < 2 ^ Suc k" and "n \<noteq> 0"
    by auto
  with Suc.IH [of "n div 2"] show ?case
    by (simp add: bit_length.simps [of n])
qed

text \<open>Below \<open>2 ^ 53\<close> the addition is exact; at \<open>2 ^ 53\<close> an increment of 1 is rounded away.\<close>

lemma js_add_exact:
  "n + t < 2 ^ 53 \<Longrightarrow> js_add (enat n) t = enat (n + t)"
  by (simp add: js_add_def round_to_double_def)

lemma js_add_rounds: "js_add (enat (2 ^ 53)) 1 = enat (2 ^ 53)"
proof -
  have "bit_length (2 ^ 53 + 1) = Suc 53"
    by (rule bit_length_bounds) simp_all
  then show ?thesis
    by (simp add: js_add_def round_to_double_def Let_def)
qed

section \<open>Properties of the Firestore helpers\<close>

lemma load_rejected:
  "loadUserHistory enc now True (Some docs) uid = (Inl FirestoreError, Some docs)"
  by (simp add: loadUserHistory_def)

lemma load_existing:
  assumes "docs uid = Some d"
  shows "loadUserHistory enc now False (Some docs) uid
           = (Inr (Some \<lparr>loaded_history = history_of (Some docs) uid,
                          loaded_total_tokens =
                            (case total_tokens d of Some n \<Rightarrow> n | None \<Rightarrow> 0)\<rparr>),
              Some docs)"
  using assms
  by (simp add: loadUserHistory_def history_of_def stored_history_def stored_doc_def
        split: option.splits)

lemma load_missing:
  assumes "docs uid = None"
  shows "loadUserHistory enc now False (Some docs) uid
           = (Inr (Some \<lparr>loaded_history = [seed_message None],
                          loaded_total_tokens = countTokensForContent enc SYSTEM_PROMPT\<rparr>),
              Some (docs(uid \<mapsto>
                \<lparr>history = Some [seed_message (Some now)],
                 total_tokens = Some (countTokensForContent enc SYSTEM_PROMPT),
                 token_usage = Some \<lparr>usage_total = 0, last_updated = now\<rparr>,
                 updated_at = Some now\<rparr>)))"
  using assms by (simp add: loadUserHistory_def)

lemma load_leaves_a_document:
  "\<exists>l st d. loadUserHistory enc now False (Some docs) uid = (Inr (Some l), Some st)
      \<and> st uid = Some d
      \<and> map (stamp now) (loaded_history l) = map (stamp now) (history_of (Some st) uid)"
proof (cases "docs uid")
  case None
  then show ?thesis
    by (simp add: load_missing history_of_def stored_history_def stored_doc_def
          stamp_def seed_message_def)
next
  case (Some d)
  then show ?thesis by (simp add: load_existing)
qed

lemma authenticated_SomeD:
  assumes "authenticated firestore req = Some uid"
  shows "\<exists>docs. firestore = Some docs" and "user_uid req = Some uid" and "uid \<noteq> []"
  using assms by (auto simp add: authenticated_def split: option.splits if_splits)

lemma build_rejected:
  assumes "authenticated (Some docs) req = Some uid"
  shows "buildConversation enc maxT now True (Some docs) req text
           = (Inl FirestoreError, Some docs, session req)"
  using assms by (simp add: buildConversation_def load_rejected)

lemma build_firestore:
  assumes "authenticated (Some docs) req = Some uid"
  shows "\<exists>conv. buildConversation enc maxT now False (Some docs) req text
           = (Inr conv, snd (loadUserHistory enc now False (Some docs) uid), session req)
         \<and> firestore_uid conv = Some uid"
proof -
  obtain l st where "loadUserHistory enc now False (Some docs) uid = (Inr (Some l), Some st)"
    using load_leaves_a_document [of enc now docs uid] by blast
  with assms authenticated_SomeD(3) [OF assms] show ?thesis
    by (simp add: buildConversation_def Let_def firestore_uid_def)
qed

lemma persist_chat_firestore:
  assumes "firestore_uid conv = Some uid" and "st uid = Some d"
  shows "persist_chat enc maxT io (Some st) sess conv text reply t =
     (let hist = history_of (Some st) uid
                   @ [new_message ''user'' text (persist_now io),
                      new_message ''assistant'' reply (persist_now io)];
          r = trimMessagesByTokenBudget enc (Some hist) maxT;
          saved = d\<lparr>history := Some (map (stamp (persist_now io)) (messages r)),
                    total_tokens := Some (totalTokens r),
                    updated_at := Some (persist_now io)\<rparr>
      in if reload_fails io \<or> save_fails io then (Inl FirestoreError, Some st, sess)
         else if usage_fails io then (Inl FirestoreError, Some (st(uid \<mapsto> saved)), sess)
         else (Inr (),
               Some (st(uid \<mapsto> saved\<lparr>token_usage :=
                  Some \<lparr>usage_total =
                          js_add (case token_usage d of None \<Rightarrow> 0
                                  | Some u \<Rightarrow> usage_total u) t,
                        last_updated = persist_now io\<rparr>\<rparr>)),
               sess))"
  using assms
  by (cases "reload_fails io"; cases "save_fails io"; cases "usage_fails io")
     (simp_all add: persist_chat_def load_rejected load_existing saveUserHistory_def
        addUserTokenUsage_def Let_def)

text \<open>
  What a successful usage transaction leaves in the counter. Increments one after the
  other add up as long as the sum stays below \<open>2 ^ 53\<close>: each transaction reads the
  counter the one before it wrote.
\<close>

lemma add_usage_count:
  "usage_count (snd (addUserTokenUsage now False (Some docs) uid n)) uid
     = js_add (usage_count (Some docs) uid) n"
  by (simp add: addUserTokenUsage_def usage_count_def stored_usage_def stored_doc_def Let_def
        split: option.splits)

lemma add_usage_Some:
  "\<exists>docs'. snd (addUserTokenUsage now False (Some docs) uid n) = Some docs'"
  by (simp add: addUserTokenUsage_def Let_def)

lemma add_usage_in_sequence:
  "usage_count (Some docs) uid = enat n \<Longrightarrow> n + sum_list deltas < 2 ^ 53 \<Longrightarrow>
   usage_count (foldl (\<lambda>fs t. snd (addUserTokenUsage now False fs uid t)) (Some docs) deltas) uid
     = enat (n + sum_list deltas)"
proof (induction deltas arbitrary: docs n)
  case Nil
  then show ?case by simp
next
  case (Cons t deltas)
  obtain docs' where step: "snd (addUserTokenUsage now False (Some docs) uid t) = Some docs'"
    using add_usage_Some by blast
  from Cons.prems have "n + t < 2 ^ 53" by simp
  then have "usage_count (Some docs') uid = enat (n + t)"
    using add_usage_count [of now docs uid t] step Cons.prems(1) by (simp add: js_add_exact)
  moreover from Cons.prems have "(n + t) + sum_list deltas < 2 ^ 53" by simp
  ultimately show ?case
    using Cons.IH [of docs' "n + t"] step by (simp add: add.assoc)
qed

text \<open>
  An authenticated chat request, step by step: what the handler answers and leaves behind
  for each outcome of the external calls. \<open>seeded\<close> is the collection as the first load
  leaves it.
\<close>

lemma chat_handler_authenticated:
  fixes enc maxT io firestore req uid userMessage
  defines "seeded \<equiv> snd (loadUserHistory enc (build_now io) False firestore uid)"
      and "result \<equiv> chat_handler enc maxT io firestore req"
  assumes auth: "authenticated firestore req = Some uid"
      and msg: "message_text (body_message req) = Inr userMessage"
      and not_blank: "userMessage \<noteq> []"
  shows "snd (snd result) = session req
       \<and> (load_fails io \<longrightarrow>
            result = (ErrorResponse 500 ''Failed to process chat'' (Some FirestoreError),
                      firestore, session req))
       \<and> (\<not> load_fails io \<longrightarrow>
            (\<forall>e. completion io = Inl e \<longrightarrow>
                   result = (ErrorResponse 500 ''Failed to process chat'' (Some e),
                             seeded, session req))
          \<and> (\<forall>c. completion io = Inr c \<longrightarrow>
                  (reload_fails io \<or> save_fails io \<longrightarrow>
                     result = (ErrorResponse 500 ''Failed to process chat'' (Some FirestoreError),
                               seeded, session req))
                \<and> (\<not> reload_fails io \<and> \<not> save_fails io \<longrightarrow>
                     stored_history (fst (snd result)) uid
                       = Some (turn_history enc maxT (persist_now io) seeded uid userMessage (reply_text c))
                   \<and> (usage_fails io \<longrightarrow>
                        fst result
                          = ErrorResponse 500 ''Failed to process chat'' (Some FirestoreError)
                      \<and> stored_usage (fst (snd result)) uid = stored_usage seeded uid)
                   \<and> (\<not> usage_fails io \<longrightarrow>
                        (\<exists>p k. fst result = ChatReply (reply_text c) p k (p + k)
                            \<and> usage_count (fst (snd result)) uid
                                = js_add (usage_count seeded uid) (p + k))))))"
proof -
  from auth obtain docs where fs: "firestore = Some docs"
    using authenticated_SomeD(1) by blast
  obtain l st d where load: "loadUserHistory enc (build_now io) False (Some docs) uid
                               = (Inr (Some l), Some st)"
    and doc: "st uid = Some d"
    using load_leaves_a_document [of enc "build_now io" docs uid] by blast
  from load fs have seeded: "seeded = Some st"
    by (simp add: seeded_def)
  from auth fs obtain conv where
    build: "buildConversation enc maxT (build_now io) False (Some docs) req userMessage
              = (Inr conv, Some st, session req)"
    and conv: "firestore_uid conv = Some uid"
    using build_firestore [of docs req uid enc maxT "build_now io" userMessage] load by auto
  note persist = persist_chat_firestore [of conv uid st d, OF conv doc]
  show ?thesis
  proof (cases "load_fails io")
    case True
    with auth fs msg not_blank show ?thesis
      by (simp add: result_def chat_handler_def build_rejected)
  next
    case False
    show ?thesis
    proof (cases "completion io")
      case (Inl e)
      with False fs msg not_blank build seeded show ?thesis
        by (simp add: result_def chat_handler_def)
    next
      case (Inr c)
      with False fs msg not_blank build seeded doc show ?thesis
        by (cases "reload_fails io"; cases "save_fails io"; cases "usage_fails io")
           (simp_all add: result_def chat_handler_def persist Let_def turn_history_def
              stored_history_def stored_usage_def usage_count_def stored_doc_def)
    qed
  qed
qed

lemmas eval_chat =
  chat_handler_def message_text_def js_trim_def is_ws_def buildConversation_def
  authenticated_def chat_request_def empty_session_def ok_io_def demo_docs_def alice_doc_def
  persist_chat_def firestore_uid_def loadUserHistory_def saveUserHistory_def
  addUserTokenUsage_def js_add_def round_to_double_def trimMessagesByTokenBudget_def
  reply_text_def stamp_def
  new_message_def ensureAnonHistory_def
  stored_history_def stored_usage_def stored_doc_def usage_count_def
  count_messages_Cons count_messages_Nil countTokensForContent_def unit_encoder_def
  sys_msg_def Let_def

section \<open>Properties of the conversation builder\<close>

text \<open>
  Claim C5, as amended. With \<open>built\<close> what \<^const>\<open>buildConversation\<close> returns and leaves
  behind: for an authenticated request it leaves the session alone; it leaves the
  collection alone when the user's document exists, and when there is none its load
  creates the seeded one. For an anonymous request it leaves the collection alone and
  writes the session: the history becomes the trimmed history with the user message
  pushed, and the total becomes the trimmed total. The handler persists the rest only
  once the completion has returned: when the builder throws or the completion call is
  rejected, it answers 500 and the collection and the session are as the builder left
  them; when the completion returns, for an anonymous request it answers with the reply,
  leaves the collection alone and writes the session (the builder's history with the
  assistant message pushed, trimmed, and its total), and for an authenticated request
  whose Firestore calls all succeed it leaves the session alone, stores the turn's
  history and adds the reported total to the usage counter.
\<close>

theorem buildConversation_writes:
  fixes enc maxT io firestore req userMessage uid
  defines "built \<equiv> buildConversation enc maxT (build_now io) (load_fails io) firestore req
                      userMessage"
      and "trimmed \<equiv> trimMessagesByTokenBudget enc
             (Some ((case session_history (session req) of
                       None \<Rightarrow> [seed_message (Some (build_now io))] | Some h \<Rightarrow> h)
                    @ [new_message ''user'' userMessage (build_now io)])) maxT"
  defines "replied \<equiv> \<lambda>c. trimMessagesByTokenBudget enc
             (Some (messages trimmed
                    @ [new_message ''assistant'' (reply_text c) (persist_now io)])) maxT"
      and "result \<equiv> chat_handler enc maxT io firestore req"
  shows "(authenticated firestore req = Some uid \<longrightarrow>
            snd (snd built) = session req
          \<and> (stored_doc firestore uid \<noteq> None \<longrightarrow> fst (snd built) = firestore)
          \<and> (stored_doc firestore uid = None \<and> \<not> load_fails io \<longrightarrow>
               stored_history (fst (snd built)) uid
                 = Some [seed_message (Some (build_now io))]))
       \<and> (authenticated firestore req = None \<longrightarrow>
            fst (snd built) = firestore
          \<and> session_history (snd (snd built)) = Some (messages trimmed)
          \<and> history_total_tokens (snd (snd built)) = Some (totalTokens trimmed))
       \<and> (message_text (body_message req) = Inr userMessage \<and> userMessage \<noteq> [] \<longrightarrow>
            (\<forall>e. fst built = Inl e \<longrightarrow>
                   result = (ErrorResponse 500 ''Failed to process chat'' (Some e), snd built))
          \<and> (\<forall>e conv. fst built = Inr conv \<and> completion io = Inl e \<longrightarrow>
                   result = (ErrorResponse 500 ''Failed to process chat'' (Some e), snd built))
          \<and> (\<forall>c. completion io = Inr c \<longrightarrow>
                 (authenticated firestore req = None \<longrightarrow>
                    (\<exists>p k. fst result = ChatReply (reply_text c) p k (p + k))
                  \<and> fst (snd result) = firestore
                  \<and> session_history (snd (snd result)) = Some (messages (replied c))
                  \<and> history_total_tokens (snd (snd result)) = Some (totalTokens (replied c)))
               \<and> (authenticated firestore req = Some uid \<and> \<not> load_fails io
                    \<and> \<not> reload_fails io \<and> \<not> save_fails io \<and> \<not> usage_fails io \<longrightarrow>
                    snd (snd result) = session req
                  \<and> stored_history (fst (snd result)) uid
                      = Some (turn_history enc maxT (persist_now io) (fst (snd built)) uid
                                userMessage (reply_text c))
                  \<and> (\<exists>p k. fst result = ChatReply (reply_text c) p k (p + k)
                        \<and> usage_count (fst (snd result)) uid
                            = js_add (usage_count (fst (snd built)) uid) (p + k)))))"
proof -
  have builder_auth:
    "authenticated firestore req = Some uid \<longrightarrow>
       snd (snd built) = session req
     \<and> (stored_doc firestore uid \<noteq> None \<longrightarrow> fst (snd built) = firestore)
     \<and> (stored_doc firestore uid = None \<and> \<not> load_fails io \<longrightarrow>
          stored_history (fst (snd built)) uid = Some [seed_message (Some (build_now io))])"
  proof (intro conjI impI)
    assume auth: "authenticated firestore req = Some uid"
    then obtain docs where fs: "firestore = Some docs"
      using authenticated_SomeD(1) by blast
    have cases: "built = (Inl FirestoreError, Some docs, session req)
                 \<or> (\<exists>conv. built = (Inr conv,
                       snd (loadUserHistory enc (build_now io) False (Some docs) uid),
                       session req))"
      using auth fs build_rejected [of docs req uid enc maxT "build_now io" userMessage]
        build_firestore [of docs req uid enc maxT "build_now io" userMessage]
      by (cases "load_fails io") (auto simp add: built_def)
    from cases show "snd (snd built) = session req"
      by auto
    {
      assume "stored_doc firestore uid \<noteq> None"
      then obtain d where "docs uid = Some d"
        using fs by (auto simp add: stored_doc_def)
      then have "snd (loadUserHistory enc (build_now io) False (Some docs) uid) = Some docs"
        by (simp add: load_existing)
      with cases fs show "fst (snd built) = firestore"
        by auto
    }
    {
      assume "stored_doc firestore uid = None \<and> \<not> load_fails io"
      then have none: "docs uid = None" and ok: "\<not> load_fails io"
        using fs by (simp_all add: stored_doc_def)
      from ok auth fs obtain conv where
        "built = (Inr conv, snd (loadUserHistory enc (build_now io) False (Some docs) uid),
                  session req)"
        using build_firestore [of docs req uid enc maxT "build_now io" userMessage]
        by (auto simp add: built_def)
      with none
      show "stored_history (fst (snd built)) uid = Some [seed_message (Some (build_now io))]"
        by (simp add: load_missing stored_history_def stored_doc_def)
    }
  qed
  have builder_anon:
    "authenticated firestore req = None \<longrightarrow>
       fst (snd built) = firestore
     \<and> session_history (snd (snd built)) = Some (messages trimmed)
     \<and> history_total_tokens (snd (snd built)) = Some (totalTokens trimmed)"
    by (simp add: built_def trimmed_def buildConversation_def ensureAnonHistory_def Let_def
          split: option.splits)
  have orchestrator:
    "(\<forall>e. fst built = Inl e \<longrightarrow>
           result = (ErrorResponse 500 ''Failed to process chat'' (Some e), snd built))
     \<and> (\<forall>e conv. fst built = Inr conv \<and> completion io = Inl e \<longrightarrow>
           result = (ErrorResponse 500 ''Failed to process chat'' (Some e), snd built))
     \<and> (\<forall>c. completion io = Inr c \<longrightarrow>
           (authenticated firestore req = None \<longrightarrow>
              (\<exists>p k. fst result = ChatReply (reply_text c) p k (p + k))
            \<and> fst (snd result) = firestore
            \<and> session_history (snd (snd result)) = Some (messages (replied c))
            \<and> history_total_tokens (snd (snd result)) = Some (totalTokens (replied c)))
         \<and> (authenticated firestore req = Some uid \<and> \<not> load_fails io
              \<and> \<not> reload_fails io \<and> \<not> save_fails io \<and> \<not> usage_fails io \<longrightarrow>
              snd (snd result) = session req
            \<and> stored_history (fst (snd result)) uid
                = Some (turn_history enc maxT (persist_now io) (fst (snd built)) uid
                          userMessage (reply_text c))
            \<and> (\<exists>p k. fst result = ChatReply (reply_text c) p k (p + k)
                  \<and> usage_count (fst (snd result)) uid
                      = js_add (usage_count (fst (snd built)) uid) (p + k))))"
    if msg: "message_text (body_message req) = Inr userMessage" and not_blank: "userMessage \<noteq> []"
  proof (intro conjI allI impI)
    fix e
    assume "fst built = Inl e"
    with msg not_blank
    show "result = (ErrorResponse 500 ''Failed to process chat'' (Some e), snd built)"
      by (cases built) (simp add: result_def chat_handler_def built_def)
  next
    fix e conv
    assume "fst built = Inr conv \<and> completion io = Inl e"
    with msg not_blank
    show "result = (ErrorResponse 500 ''Failed to process chat'' (Some e), snd built)"
      by (cases built) (simp add: result_def chat_handler_def built_def)
  next
    fix c
    assume c: "completion io = Inr c" and anon: "authenticated firestore req = None"
    from c anon msg not_blank
    show "\<exists>p k. fst result = ChatReply (reply_text c) p k (p + k)"
      by (simp add: result_def chat_handler_def buildConversation_def persist_chat_def
            firestore_uid_def ensureAnonHistory_def Let_def split: option.splits)
    from c anon msg not_blank show "fst (snd result) = firestore"
      by (simp add: result_def chat_handler_def buildConversation_def persist_chat_def
            firestore_uid_def ensureAnonHistory_def Let_def split: option.splits)
    from c anon msg not_blank
    show "session_history (snd (snd result)) = Some (messages (replied c))"
      by (simp add: result_def replied_def trimmed_def chat_handler_def buildConversation_def
            persist_chat_def firestore_uid_def ensureAnonHistory_def Let_def
            split: option.splits)
    from c anon msg not_blank
    show "history_total_tokens (snd (snd result)) = Some (totalTokens (replied c))"
      by (simp add: result_def replied_def trimmed_def chat_handler_def buildConversation_def
            persist_chat_def firestore_uid_def ensureAnonHistory_def Let_def
            split: option.splits)
  next
    fix c
    assume c: "completion io = Inr c"
      and ok: "authenticated firestore req = Some uid \<and> \<not> load_fails io
                \<and> \<not> reload_fails io \<and> \<not> save_fails io \<and> \<not> usage_fails io"
    then have auth: "authenticated firestore req = Some uid" by simp
    then obtain docs where fs: "firestore = Some docs"
      using authenticated_SomeD(1) by blast
    from ok auth fs have seeded:
      "fst (snd built) = snd (loadUserHistory enc (build_now io) False firestore uid)"
      using build_firestore [of docs req uid enc maxT "build_now io" userMessage]
      by (auto simp add: built_def)
    note turn = chat_handler_authenticated [where enc = enc and io = io and maxT = maxT,
      OF auth msg not_blank]
    from turn show "snd (snd result) = session req"
      by (simp add: result_def)
    from turn c ok seeded
    show "stored_history (fst (snd result)) uid
            = Some (turn_history enc maxT (persist_now io) (fst (snd built)) uid
                      userMessage (reply_text c))"
      by (simp add: result_def)
    from turn c ok seeded
    show "\<exists>p k. fst result = ChatReply (reply_text c) p k (p + k)
            \<and> usage_count (fst (snd result)) uid
                = js_add (usage_count (fst (snd built)) uid) (p + k)"
      by (simp add: result_def)
  qed
  from builder_auth builder_anon orchestrator show ?thesis
    by blast
qed

theorem buildConversation_writes_witness:
  "authenticated (Some demo_docs) (chat_request (Some ''alice'') (JStr ''Mhoro'')) = Some ''alice''
   \<and> stored_doc (Some demo_docs) ''alice'' \<noteq> None
   \<and> snd (buildConversation unit_encoder 3000 100 False (Some demo_docs)
             (chat_request (Some ''alice'') (JStr ''Mhoro'')) ''Mhoro'')
       = (Some demo_docs, empty_session)
   \<and> authenticated None (chat_request None (JStr ''Mhoro'')) = None
   \<and> message_text (body_message (chat_request None (JStr ''Mhoro''))) = Inr ''Mhoro''
   \<and> ''Mhoro'' \<noteq> []
   \<and> session_history (snd (snd (buildConversation unit_encoder 3000 100 False None
             (chat_request None (JStr ''Mhoro'')) ''Mhoro'')))
       = Some [seed_message (Some 100), new_message ''user'' ''Mhoro'' 100]
   \<and> completion ok_io = Inr (Some ''Mhoro, ndeipi?'')
   \<and> session_history (snd (snd (chat_handler unit_encoder 3000 ok_io None
             (chat_request None (JStr ''Mhoro'')))))
       = Some [seed_message (Some 100), new_message ''user'' ''Mhoro'' 100,
               new_message ''assistant'' ''Mhoro, ndeipi?'' 200]
   \<and> completion (ok_io\<lparr>completion := Inl OpenAIError\<rparr>) = Inl OpenAIError
   \<and> session_history (snd (snd (chat_handler unit_encoder 3000
             (ok_io\<lparr>completion := Inl OpenAIError\<rparr>) None
             (chat_request None (JStr ''Mhoro'')))))
       = Some [seed_message (Some 100), new_message ''user'' ''Mhoro'' 100]"
proof -
  let ?alice = "chat_request (Some ''alice'') (JStr ''Mhoro'')"
  let ?anon = "chat_request None (JStr ''Mhoro'')"
  let ?down = "ok_io\<lparr>completion := Inl OpenAIError\<rparr>"
  have a: "authenticated (Some demo_docs) ?alice = Some ''alice''"
    by (simp add: authenticated_def chat_request_def)
  have d: "stored_doc (Some demo_docs) ''alice'' \<noteq> None"
    by (simp add: stored_doc_def demo_docs_def)
  have n: "authenticated None ?anon = None"
    by (simp add: authenticated_def chat_request_def)
  have m: "message_text (body_message ?anon) = Inr ''Mhoro''"
    by (simp add: message_text_def chat_request_def js_trim_def is_ws_def)
  have e: "session ?alice = empty_session" "session ?anon = empty_session"
    by (simp_all add: chat_request_def)
  have io: "build_now ok_io = 100" "load_fails ok_io = False" "persist_now ok_io = 200"
    "completion ok_io = Inr (Some ''Mhoro, ndeipi?'')"
    "build_now ?down = 100" "load_fails ?down = False" "completion ?down = Inl OpenAIError"
    "reply_text (Some ''Mhoro, ndeipi?'') = ''Mhoro, ndeipi?''"
    by (simp_all add: ok_io_def reply_text_def)
  have t1: "messages (trimMessagesByTokenBudget unit_encoder
             (Some [seed_message (Some 100), new_message ''user'' ''Mhoro'' 100]) 3000)
           = [seed_message (Some 100), new_message ''user'' ''Mhoro'' 100]"
    by (simp add: trimMessagesByTokenBudget_def eval_tokens seed_message_def new_message_def
          SYSTEM_PROMPT_def APP_NAME_def)
  have t2: "messages (trimMessagesByTokenBudget unit_encoder
             (Some [seed_message (Some 100), new_message ''user'' ''Mhoro'' 100,
                    new_message ''assistant'' ''Mhoro, ndeipi?'' 200]) 3000)
           = [seed_message (Some 100), new_message ''user'' ''Mhoro'' 100,
              new_message ''assistant'' ''Mhoro, ndeipi?'' 200]"
    by (simp add: trimMessagesByTokenBudget_def eval_tokens seed_message_def new_message_def
          SYSTEM_PROMPT_def APP_NAME_def)
  have b: "\<exists>conv. fst (buildConversation unit_encoder 3000 100 False None ?anon ''Mhoro'')
             = Inr conv"
    by (simp add: buildConversation_def n ensureAnonHistory_def Let_def split: option.splits)
  note alice = buildConversation_writes [where enc = unit_encoder and maxT = 3000
      and io = ok_io and firestore = "Some demo_docs" and req = ?alice
      and userMessage = "''Mhoro''" and uid = "''alice''"]
  note anon = buildConversation_writes [where enc = unit_encoder and maxT = 3000
      and io = ok_io and firestore = None and req = ?anon
      and userMessage = "''Mhoro''" and uid = "''alice''"]
  note down = buildConversation_writes [where enc = unit_encoder and maxT = 3000
      and io = ?down and firestore = None and req = ?anon
      and userMessage = "''Mhoro''" and uid = "''alice''"]
  have w1: "snd (buildConversation unit_encoder 3000 100 False (Some demo_docs) ?alice ''Mhoro'')
              = (Some demo_docs, empty_session)"
    using alice a d by (simp add: io e prod_eq_iff)
  have w2: "session_history (snd (snd (buildConversation unit_encoder 3000 100 False None
              ?anon ''Mhoro'')))
              = Some [seed_message (Some 100), new_message ''user'' ''Mhoro'' 100]"
    using anon n by (simp add: io e t1 empty_session_def)
  have w3: "session_history (snd (snd (chat_handler unit_encoder 3000 ok_io None ?anon)))
              = Some [seed_message (Some 100), new_message ''user'' ''Mhoro'' 100,
                      new_message ''assistant'' ''Mhoro, ndeipi?'' 200]"
    using anon n m by (simp add: io e t1 t2 empty_session_def)
  have w4: "session_history (snd (snd (chat_handler unit_encoder 3000 ?down None ?anon)))
              = Some [seed_message (Some 100), new_message ''user'' ''Mhoro'' 100]"
    using down n m b w2 by (auto simp add: io)
  from a d n m w1 w2 w3 w4 io(4,7) show ?thesis
    by simp
qed

text \<open>
  Claim C5 as stated has the builder write to no history store. An anonymous request
  leaves with a different session, and an authenticated user's first request leaves
  with a document that was not there.
\<close>

theorem buildConversation_writes_stores:
  "authenticated None (chat_request None (JStr ''Mhoro'')) = None
   \<and> snd (snd (buildConversation unit_encoder 3000 100 False None
             (chat_request None (JStr ''Mhoro'')) ''Mhoro''))
       \<noteq> session (chat_request None (JStr ''Mhoro''))
   \<and> authenticated (Some Map.empty) (chat_request (Some ''bob'') (JStr ''Mhoro'')) = Some ''bob''
   \<and> stored_doc (fst (snd (buildConversation unit_encoder 3000 100 False (Some Map.empty)
             (chat_request (Some ''bob'') (JStr ''Mhoro'')) ''Mhoro''))) ''bob''
       \<noteq> stored_doc (Some Map.empty) ''bob''"
  by (simp add: buildConversation_def authenticated_def chat_request_def empty_session_def
        ensureAnonHistory_def loadUserHistory_def stored_doc_def Let_def)

section \<open>Properties of the routes\<close>

subsection \<open>Persistence of a chat turn\<close>

text \<open>
  Claim C3, as amended. For an authenticated request with a message, the session stays
  as it was, and with \<open>seeded\<close> the collection as the first load leaves it (unchanged when
  the user's document exists): when the first load is rejected the handler answers 500
  and the collection is the request's own; when the completion call, the second load or
  the save is rejected, the handler answers 500 and the collection is \<open>seeded\<close>, so neither
  the history nor the usage is updated. When the completion call returns, with or
  without a content (a response without one is answered with the default reply, not as
  a failure), and both loads and the save succeed, the stored history is the turn's
  history; then, when the usage transaction succeeds, the answer is the reply and the
  counter is the rounded sum of the old counter and the total the response reports,
  which is their exact sum while that stays below \<open>2 ^ 53\<close>; and when the usage
  transaction is rejected, the answer is 500 and the usage stays as it was.
\<close>

theorem chat_persistence:
  fixes enc maxT io firestore req uid userMessage
  defines "seeded \<equiv> snd (loadUserHistory enc (build_now io) False firestore uid)"
      and "result \<equiv> chat_handler enc maxT io firestore req"
  assumes auth: "authenticated firestore req = Some uid"
      and msg: "message_text (body_message req) = Inr userMessage"
      and not_blank: "userMessage \<noteq> []"
  shows "snd (snd result) = session req
       \<and> (load_fails io \<longrightarrow>
            result = (ErrorResponse 500 ''Failed to process chat'' (Some FirestoreError),
                      firestore, session req))
       \<and> (\<not> load_fails io \<longrightarrow>
            (\<forall>e. completion io = Inl e \<longrightarrow>
                   result = (ErrorResponse 500 ''Failed to process chat'' (Some e),
                             seeded, session req))
          \<and> (\<forall>c. completion io = Inr c \<longrightarrow>
                  (reload_fails io \<or> save_fails io \<longrightarrow>
                     result = (ErrorResponse 500 ''Failed to process chat'' (Some FirestoreError),
                               seeded, session req))
                \<and> (\<not> reload_fails io \<and> \<not> save_fails io \<longrightarrow>
                     stored_history (fst (snd result)) uid
                       = Some (turn_history enc maxT (persist_now io) seeded uid userMessage
                                 (reply_text c))
                   \<and> (usage_fails io \<longrightarrow>
                        fst result
                          = ErrorResponse 500 ''Failed to process chat'' (Some FirestoreError)
                      \<and> stored_usage (fst (snd result)) uid = stored_usage seeded uid)
                   \<and> (\<not> usage_fails io \<longrightarrow>
                        (\<exists>p k. fst result = ChatReply (reply_text c) p k (p + k)
                            \<and> usage_count (fst (snd result)) uid
                                = js_add (usage_count seeded uid) (p + k)
                            \<and> (\<forall>n. usage_count seeded uid = enat n \<and> n + (p + k) < 2 ^ 53
                                  \<longrightarrow> usage_count (fst (snd result)) uid
                                        = enat (n + (p + k))))))))"
proof -
  note turn = chat_handler_authenticated [where enc = enc and io = io and maxT = maxT,
      OF auth msg not_blank]
  have exact: "\<exists>p k. fst result = ChatReply (reply_text c) p k (p + k)
                 \<and> usage_count (fst (snd result)) uid = js_add (usage_count seeded uid) (p + k)
                 \<and> (\<forall>n. usage_count seeded uid = enat n \<and> n + (p + k) < 2 ^ 53
                       \<longrightarrow> usage_count (fst (snd result)) uid = enat (n + (p + k)))"
    if "\<not> load_fails io" and "completion io = Inr c" and "\<not> reload_fails io"
      and "\<not> save_fails io" and "\<not> usage_fails io" for c
  proof -
    from turn that obtain p k where reply: "fst result = ChatReply (reply_text c) p k (p + k)"
      and count: "usage_count (fst (snd result)) uid = js_add (usage_count seeded uid) (p + k)"
      unfolding seeded_def result_def by blast
    have "usage_count (fst (snd result)) uid = enat (n + (p + k))"
      if "usage_count seeded uid = enat n \<and> n + (p + k) < 2 ^ 53" for n
      using that count by (simp add: js_add_exact)
    with reply count show ?thesis by blast
  qed
  from turn exact show ?thesis
    unfolding seeded_def result_def by blast
qed

theorem chat_persistence_witness:
  "authenticated (Some demo_docs) (chat_request (Some ''alice'') (JStr '' Mhoro '')) = Some ''alice''
   \<and> message_text (body_message (chat_request (Some ''alice'') (JStr '' Mhoro ''))) = Inr ''Mhoro''
   \<and> ''Mhoro'' \<noteq> []
   \<and> fst (chat_handler unit_encoder 3000 ok_io (Some demo_docs)
             (chat_request (Some ''alice'') (JStr '' Mhoro '')))
       = ChatReply ''Mhoro, ndeipi?'' 21 14 35
   \<and> usage_count (Some demo_docs) ''alice'' = enat 40
   \<and> (40::nat) + (21 + 14) < 2 ^ 53
   \<and> usage_count (fst (snd (chat_handler unit_encoder 3000 ok_io (Some demo_docs)
             (chat_request (Some ''alice'') (JStr '' Mhoro ''))))) ''alice'' = enat 75
   \<and> stored_history (fst (snd (chat_handler unit_encoder 3000 ok_io (Some demo_docs)
             (chat_request (Some ''alice'') (JStr '' Mhoro ''))))) ''alice''
       = Some (turn_history unit_encoder 3000 200 (Some demo_docs) ''alice'' ''Mhoro''
                 ''Mhoro, ndeipi?'')
   \<and> chat_handler unit_encoder 3000 (ok_io\<lparr>completion := Inl OpenAIError\<rparr>) (Some demo_docs)
             (chat_request (Some ''alice'') (JStr '' Mhoro ''))
       = (ErrorResponse 500 ''Failed to process chat'' (Some OpenAIError),
          Some demo_docs, empty_session)
   \<and> fst (chat_handler unit_encoder 3000 (ok_io\<lparr>completion := Inr None\<rparr>) (Some demo_docs)
             (chat_request (Some ''alice'') (JStr '' Mhoro '')))
       = ChatReply DEFAULT_REPLY 21 42 63
   \<and> usage_count (fst (snd (chat_handler unit_encoder 3000 (ok_io\<lparr>completion := Inr None\<rparr>)
             (Some demo_docs) (chat_request (Some ''alice'') (JStr '' Mhoro ''))))) ''alice''
       = enat 103
   \<and> stored_history (fst (snd (chat_handler unit_encoder 3000
             (ok_io\<lparr>completion := Inr None\<rparr>) (Some demo_docs)
             (chat_request (Some ''alice'') (JStr '' Mhoro ''))))) ''alice''
       = Some (turn_history unit_encoder 3000 200 (Some demo_docs) ''alice'' ''Mhoro''
                 DEFAULT_REPLY)"
proof -
  let ?req = "chat_request (Some ''alice'') (JStr '' Mhoro '')"
  let ?down = "ok_io\<lparr>completion := Inl OpenAIError\<rparr>"
  let ?hollow = "ok_io\<lparr>completion := Inr None\<rparr>"
  have a: "authenticated (Some demo_docs) ?req = Some ''alice''"
    by (simp add: authenticated_def chat_request_def)
  have m: "message_text (body_message ?req) = Inr ''Mhoro''"
    by (simp add: message_text_def chat_request_def js_trim_def is_ws_def)
  have n: "''Mhoro'' \<noteq> []" by simp
  have e: "session ?req = empty_session"
    by (simp add: chat_request_def)
  have s: "snd (loadUserHistory unit_encoder 100 False (Some demo_docs) ''alice'') = Some demo_docs"
    by (simp add: loadUserHistory_def demo_docs_def)
  have r: "fst (chat_handler unit_encoder 3000 ok_io (Some demo_docs) ?req)
             = ChatReply ''Mhoro, ndeipi?'' 21 14 35"
    by (simp add: eval_chat)
  have r': "fst (chat_handler unit_encoder 3000 ?hollow (Some demo_docs) ?req)
             = ChatReply DEFAULT_REPLY 21 42 63"
    by (simp add: eval_chat DEFAULT_REPLY_def)
  have u: "usage_count (Some demo_docs) ''alice'' = enat 40"
    by (simp add: usage_count_def stored_usage_def stored_doc_def demo_docs_def alice_doc_def
          numeral_eq_enat)
  have io: "\<not> load_fails ok_io" "completion ok_io = Inr (Some ''Mhoro, ndeipi?'')"
    "\<not> reload_fails ok_io" "\<not> save_fails ok_io" "\<not> usage_fails ok_io"
    "persist_now ok_io = 200" "build_now ok_io = 100"
    "reply_text (Some ''Mhoro, ndeipi?'') = ''Mhoro, ndeipi?''"
    "reply_text None = DEFAULT_REPLY"
    by (simp_all add: ok_io_def reply_text_def)
  note ok = chat_persistence [where enc = unit_encoder and io = ok_io and maxT = 3000,
      OF a m n]
  note down = chat_persistence [where enc = unit_encoder and io = ?down and maxT = 3000,
      OF a m n]
  note hollow = chat_persistence [where enc = unit_encoder and io = ?hollow and maxT = 3000,
      OF a m n]
  have w1: "usage_count (fst (snd (chat_handler unit_encoder 3000 ok_io (Some demo_docs) ?req)))
              ''alice'' = enat 75
            \<and> stored_history (fst (snd (chat_handler unit_encoder 3000 ok_io (Some demo_docs)
                 ?req))) ''alice''
              = Some (turn_history unit_encoder 3000 200 (Some demo_docs) ''alice'' ''Mhoro''
                        ''Mhoro, ndeipi?'')"
    using ok r u by (simp add: io s js_add_def round_to_double_def)
  have w2: "chat_handler unit_encoder 3000 ?down (Some demo_docs) ?req
              = (ErrorResponse 500 ''Failed to process chat'' (Some OpenAIError),
                 Some demo_docs, empty_session)"
    using down by (simp add: io s e)
  have w3: "usage_count (fst (snd (chat_handler unit_encoder 3000 ?hollow (Some demo_docs) ?req)))
              ''alice'' = enat 103
            \<and> stored_history (fst (snd (chat_handler unit_encoder 3000 ?hollow (Some demo_docs)
                 ?req))) ''alice''
              = Some (turn_history unit_encoder 3000 200 (Some demo_docs) ''alice'' ''Mhoro''
                        DEFAULT_REPLY)"
    using hollow r' u by (simp add: io s js_add_def round_to_double_def)
  from a m n r r' u w1 w2 w3 show ?thesis
    by simp
qed

text \<open>
  Claim C3 as stated has the history update and the usage increment happen together or
  not at all. When the usage transaction fails after the save, the handler answers 500,
  the stored history has changed and the usage counter has not.
\<close>

theorem chat_partial_persistence:
  "fst (chat_handler unit_encoder 3000 (ok_io\<lparr>usage_fails := True\<rparr>) (Some demo_docs)
          (chat_request (Some ''alice'') (JStr ''Mhoro'')))
     = ErrorResponse 500 ''Failed to process chat'' (Some FirestoreError)
   \<and> stored_history (fst (snd (chat_handler unit_encoder 3000 (ok_io\<lparr>usage_fails := True\<rparr>)
          (Some demo_docs) (chat_request (Some ''alice'') (JStr ''Mhoro''))))) ''alice''
     \<noteq> stored_history (Some demo_docs) ''alice''
   \<and> stored_usage (fst (snd (chat_handler unit_encoder 3000 (ok_io\<lparr>usage_fails := True\<rparr>)
          (Some demo_docs) (chat_request (Some ''alice'') (JStr ''Mhoro''))))) ''alice''
     = stored_usage (Some demo_docs) ''alice''"
  by (simp add: eval_chat)

subsection \<open>Validation of the chat message\<close>

text \<open>
  Claim C9. When the body's \<^verbatim>\<open>message\<close> is present and truthy but not a string, the
  call of \<^verbatim>\<open>trim\<close> throws inside the \<^verbatim>\<open>try\<close> block: the handler answers 500 with the
  error \<^verbatim>\<open>Failed to process chat\<close>, and leaves the collection and the session alone.
\<close>

theorem chat_non_string_message:
  assumes "body_message req = Some v" and "truthy v" and "\<not> is_string v"
  shows "chat_handler enc maxT io firestore req
           = (ErrorResponse 500 ''Failed to process chat'' (Some TypeError), firestore, session req)"
  using assms by (cases v) (simp_all add: chat_handler_def message_text_def)

theorem chat_non_string_message_witness:
  "body_message (chat_request (Some ''alice'') (JNum 5)) = Some (JNum 5)
   \<and> truthy (JNum 5) \<and> \<not> is_string (JNum 5)
   \<and> chat_handler unit_encoder 3000 ok_io (Some demo_docs) (chat_request (Some ''alice'') (JNum 5))
       = (ErrorResponse 500 ''Failed to process chat'' (Some TypeError), Some demo_docs, empty_session)
   \<and> truthy (JObj [(''text'', JStr ''Mhoro'')]) \<and> \<not> is_string (JObj [(''text'', JStr ''Mhoro'')])
   \<and> fst (chat_handler unit_encoder 3000 ok_io None
             (chat_request None (JObj [(''text'', JStr ''Mhoro'')])))
       = ErrorResponse 500 ''Failed to process chat'' (Some TypeError)"
proof -
  have b: "body_message (chat_request uid v) = Some v" for uid v
    by (simp add: chat_request_def)
  have n: "truthy (JNum 5)" "\<not> is_string (JNum 5)" by simp_all
  have ob: "truthy (JObj [(''text'', JStr ''Mhoro'')])" "\<not> is_string (JObj [(''text'', JStr ''Mhoro'')])"
    by simp_all
  show ?thesis
    using b n ob
      chat_non_string_message [OF b n, of unit_encoder 3000 ok_io "Some demo_docs" "Some ''alice''"]
      chat_non_string_message [OF b ob, of unit_encoder 3000 ok_io None None]
    by (simp add: chat_request_def)
qed

text \<open>The 400 answer is what a missing, null or blank message gets.\<close>

lemma chat_missing_message:
  assumes "body_message req = None \<or> body_message req = Some JNull
           \<or> body_message req = Some (JStr s) \<and> js_trim s = []"
  shows "chat_handler enc maxT io firestore req
           = (ErrorResponse 400 ''message is required'' None, firestore, session req)"
  using assms by (auto simp add: chat_handler_def message_text_def js_trim_def)

subsection \<open>Reset\<close>

text \<open>
  Claim C8. For an authenticated request, the reset leaves the user's \<^verbatim>\<open>token_usage\<close>
  field as it was, and the session too; when the write goes through, the stored history
  is the system message alone and the stored total is the estimate of the system prompt.
\<close>

theorem reset_keeps_usage:
  assumes "authenticated firestore req = Some uid"
  shows "stored_usage (fst (snd (reset_handler enc now fails firestore req))) uid
           = stored_usage firestore uid
       \<and> snd (snd (reset_handler enc now fails firestore req)) = session req
       \<and> (\<not> fails \<longrightarrow>
            fst (reset_handler enc now fails firestore req) = ResetOk ''User history reset.''
          \<and> stored_history (fst (snd (reset_handler enc now fails firestore req))) uid
              = Some [seed_message (Some now)]
          \<and> stored_total_tokens (fst (snd (reset_handler enc now fails firestore req))) uid
              = Some (countTokensForContent enc SYSTEM_PROMPT))"
proof -
  from assms obtain docs where fs: "firestore = Some docs"
    by (auto simp add: authenticated_def split: option.splits if_splits)
  show ?thesis
    using assms fs
    by (cases "docs uid")
       (simp_all add: reset_handler_def saveUserHistory_def stored_usage_def stored_history_def
          stored_total_tokens_def stored_doc_def stamp_def seed_message_def)
qed

theorem reset_keeps_usage_witness:
  "authenticated (Some demo_docs) (chat_request (Some ''alice'') JNull) = Some ''alice''
   \<and> stored_usage (Some demo_docs) ''alice'' = Some \<lparr>usage_total = 40, last_updated = 1\<rparr>
   \<and> stored_usage (fst (snd (reset_handler unit_encoder 300 False (Some demo_docs)
        (chat_request (Some ''alice'') JNull)))) ''alice''
       = Some \<lparr>usage_total = 40, last_updated = 1\<rparr>
   \<and> stored_history (fst (snd (reset_handler unit_encoder 300 False (Some demo_docs)
        (chat_request (Some ''alice'') JNull)))) ''alice''
       = Some [seed_message (Some 300)]"
proof -
  have a: "authenticated (Some demo_docs) (chat_request (Some ''alice'') JNull) = Some ''alice''"
    by (simp add: authenticated_def chat_request_def)
  have u: "stored_usage (Some demo_docs) ''alice'' = Some \<lparr>usage_total = 40, last_updated = 1\<rparr>"
    by (simp add: stored_usage_def stored_doc_def demo_docs_def alice_doc_def)
  show ?thesis
    using a u reset_keeps_usage [OF a, of unit_encoder 300 False] by simp
qed

text \<open>An anonymous reset leaves the collection alone and seeds the session.\<close>

lemma reset_anonymous:
  assumes "authenticated firestore req = None"
  shows "reset_handler enc now fails firestore req
           = (ResetOk ''Session history reset.'', firestore,
              (session req)\<lparr>session_history := Some [seed_message (Some now)],
                            history_total_tokens :=
                              Some (countTokensForContent enc SYSTEM_PROMPT)\<rparr>)"
  using assms by (simp add: reset_handler_def)

end
